theory Spec2Isabelle
  imports Complex_Main "HOL-Library.AList"
begin

section \<open>Defect and status vocabulary\<close>

text \<open>
  The two enumerations of \<^verbatim>\<open>QualitySystemChocolate.py\<close>. An \<^verbatim>\<open>Enum\<close> member is
  compared by identity, which is equality of constructors here; its \<^verbatim>\<open>.value\<close> is
  the string the class body assigns to it.
\<close>

datatype DefectType =
  BUBBLES | BREAKAGE | INCORRECT_SHAPE | STAINS | MISSING_PIECE | DAMAGED_PACKAGING

fun DefectType_value :: "DefectType \<Rightarrow> string" where
  "DefectType_value BUBBLES = ''air_bubbles''"
| "DefectType_value BREAKAGE = ''breakage''"
| "DefectType_value INCORRECT_SHAPE = ''incorrect_shape''"
| "DefectType_value STAINS = ''stains''"
| "DefectType_value MISSING_PIECE = ''missing_piece''"
| "DefectType_value DAMAGED_PACKAGING = ''damaged_packaging''"

datatype QualityStatus = APPROVED | REJECTED | PENDING

fun QualityStatus_value :: "QualityStatus \<Rightarrow> string" where
  "QualityStatus_value APPROVED = ''approved''"
| "QualityStatus_value REJECTED = ''rejected''"
| "QualityStatus_value PENDING = ''pending''"

section \<open>Products\<close>

text \<open>
  The class \<^verbatim>\<open>Chocolate\<close> and its two subclasses. The class of an object is the
  tag \<open>cls\<close>; a subclass carries its one extra attribute (\<^verbatim>\<open>_mold_type\<close>,
  \<^verbatim>\<open>_packaging_type\<close>) in the tag. \<^verbatim>\<open>datetime\<close> values are opaque to the
  program (it stores them and formats them), so they are natural numbers here.
\<close>

type_synonym datetime = nat

datatype chocolate_class =
  Chocolate
| MoldedChocolate string
| PackagedChocolate string

fun class_name :: "chocolate_class \<Rightarrow> string" where
  "class_name Chocolate = ''Chocolate''"
| "class_name (MoldedChocolate mold_type) = ''MoldedChocolate''"
| "class_name (PackagedChocolate packaging_type) = ''PackagedChocolate''"

record chocolate =
  batch_id :: string
  production_date :: datetime
  defects :: "DefectType list"
  quality_status :: QualityStatus
  cls :: chocolate_class

definition Chocolate_init :: "string \<Rightarrow> datetime \<Rightarrow> chocolate" where
  "Chocolate_init b d =
     \<lparr>batch_id = b, production_date = d, defects = [], quality_status = PENDING,
      cls = Chocolate\<rparr>"

definition MoldedChocolate_init :: "string \<Rightarrow> datetime \<Rightarrow> string \<Rightarrow> chocolate" where
  "MoldedChocolate_init b d mold_type = (Chocolate_init b d)\<lparr>cls := MoldedChocolate mold_type\<rparr>"

definition PackagedChocolate_init :: "string \<Rightarrow> datetime \<Rightarrow> string \<Rightarrow> chocolate" where
  "PackagedChocolate_init b d packaging_type =
     (Chocolate_init b d)\<lparr>cls := PackagedChocolate packaging_type\<rparr>"

text \<open>
  \<^verbatim>\<open>add_defect\<close>: append unless the list already holds the defect. It has no
  raising path, so the model is a total function to the updated product.
\<close>

definition add_defect :: "DefectType \<Rightarrow> chocolate \<Rightarrow> chocolate" where
  "add_defect defect self =
     (if defect \<notin> set (defects self) then self\<lparr>defects := defects self @ [defect]\<rparr>
      else self)"

text \<open>
  \<^verbatim>\<open>evaluate_quality\<close>, one body per class, dispatched on the class of the object
  as Python's method resolution does. Each body assigns \<^verbatim>\<open>_quality_status\<close> and
  returns it; the model returns the status with the updated product.
\<close>

definition Chocolate_evaluate_quality :: "chocolate \<Rightarrow> QualityStatus \<times> chocolate" where
  "Chocolate_evaluate_quality self =
     (if defects self = [] then (APPROVED, self\<lparr>quality_status := APPROVED\<rparr>)
      else (REJECTED, self\<lparr>quality_status := REJECTED\<rparr>))"

definition MoldedChocolate_evaluate_quality :: "chocolate \<Rightarrow> QualityStatus \<times> chocolate" where
  "MoldedChocolate_evaluate_quality self =
     (if BUBBLES \<in> set (defects self) \<or> BREAKAGE \<in> set (defects self)
         \<or> INCORRECT_SHAPE \<in> set (defects self)
      then (REJECTED, self\<lparr>quality_status := REJECTED\<rparr>)
      else (APPROVED, self\<lparr>quality_status := APPROVED\<rparr>))"

definition PackagedChocolate_evaluate_quality :: "chocolate \<Rightarrow> QualityStatus \<times> chocolate" where
  "PackagedChocolate_evaluate_quality self =
     (if BREAKAGE \<in> set (defects self) \<or> DAMAGED_PACKAGING \<in> set (defects self)
         \<or> MISSING_PIECE \<in> set (defects self)
      then (REJECTED, self\<lparr>quality_status := REJECTED\<rparr>)
      else (APPROVED, self\<lparr>quality_status := APPROVED\<rparr>))"

definition evaluate_quality :: "chocolate \<Rightarrow> QualityStatus \<times> chocolate" where
  "evaluate_quality self =
     (case cls self of
        Chocolate \<Rightarrow> Chocolate_evaluate_quality self
      | MoldedChocolate mold_type \<Rightarrow> MoldedChocolate_evaluate_quality self
      | PackagedChocolate packaging_type \<Rightarrow> PackagedChocolate_evaluate_quality self)"

section \<open>Sensors\<close>

text \<open>
  The module \<^verbatim>\<open>random\<close> is the only source of nondeterminism. It is modelled as an
  explicit entropy source, an infinite sequence of raw draws that each call consumes
  from the front, so that every outcome the generator can produce is the outcome of
  some source. \<^verbatim>\<open>randint(a, b)\<close> yields a number of \<open>a..b\<close>, and
  \<^verbatim>\<open>choices(population, k=k)\<close> yields \<open>k\<close> picks with replacement from a
  non-empty population.
\<close>

type_synonym random_source = "nat \<Rightarrow> nat"

definition draw :: "random_source \<Rightarrow> nat \<times> random_source" where
  "draw rnd = (rnd 0, \<lambda>i. rnd (Suc i))"

definition randint :: "nat \<Rightarrow> nat \<Rightarrow> random_source \<Rightarrow> nat \<times> random_source" where
  "randint a b rnd = (case draw rnd of (x, rnd') \<Rightarrow> (a + x mod (b - a + 1), rnd'))"

fun choices :: "'a list \<Rightarrow> nat \<Rightarrow> random_source \<Rightarrow> 'a list \<times> random_source" where
  "choices population 0 rnd = ([], rnd)"
| "choices population (Suc k) rnd =
     (case draw rnd of (x, rnd') \<Rightarrow>
        (case choices population k rnd' of (picks, rnd'') \<Rightarrow>
           (population ! (x mod length population) # picks, rnd'')))"

text \<open>
  \<^verbatim>\<open>QualitySensor\<close> is abstract. \<open>VisualSensor\<close> is the concrete class of the
  module; \<open>OtherSensor f\<close> stands for any further subclass, through the function its
  \<^verbatim>\<open>detect_defects\<close> computes from the product it is shown.
\<close>

datatype QualitySensor =
  VisualSensor
| OtherSensor "chocolate \<Rightarrow> DefectType list"

definition analyze_molding :: "random_source \<Rightarrow> DefectType list \<times> random_source" where
  "analyze_molding rnd =
     (let possible_defects = [BUBBLES, BREAKAGE, INCORRECT_SHAPE, STAINS]
      in case randint 0 2 rnd of (k, rnd') \<Rightarrow> choices possible_defects k rnd')"

definition analyze_packaging :: "random_source \<Rightarrow> DefectType list \<times> random_source" where
  "analyze_packaging rnd =
     (let possible_defects = [BREAKAGE, DAMAGED_PACKAGING, MISSING_PIECE]
      in case randint 0 1 rnd of (k, rnd') \<Rightarrow> choices possible_defects k rnd')"

text \<open>
  \<^verbatim>\<open>VisualSensor.detect_defects\<close> starts from an empty list and extends it in the
  branch of the product's class; a product of the base class falls through both
  \<^verbatim>\<open>isinstance\<close> tests.
\<close>

definition VisualSensor_detect_defects ::
  "chocolate \<Rightarrow> random_source \<Rightarrow> DefectType list \<times> random_source" where
  "VisualSensor_detect_defects chocolate rnd =
     (let detected_defects = [] in
      case cls chocolate of
        MoldedChocolate mold_type \<Rightarrow>
          (case analyze_molding rnd of (ds, rnd') \<Rightarrow> (detected_defects @ ds, rnd'))
      | PackagedChocolate packaging_type \<Rightarrow>
          (case analyze_packaging rnd of (ds, rnd') \<Rightarrow> (detected_defects @ ds, rnd'))
      | Chocolate \<Rightarrow> (detected_defects, rnd))"

definition detect_defects ::
  "QualitySensor \<Rightarrow> chocolate \<Rightarrow> random_source \<Rightarrow> DefectType list \<times> random_source" where
  "detect_defects sensor chocolate rnd =
     (case sensor of
        VisualSensor \<Rightarrow> VisualSensor_detect_defects chocolate rnd
      | OtherSensor f \<Rightarrow> (f chocolate, rnd))"

section \<open>The control system\<close>

text \<open>
  A ledger entry is the dictionary \<^verbatim>\<open>_register_result\<close> builds, one field per key.
  The system holds the sensor registry (a dictionary from process names) and the list
  of entries.
\<close>

record inspection_record =
  rec_batch_id :: string
  rec_date :: datetime
  rec_process :: string
  rec_defects :: "string list"
  rec_result :: string
  rec_chocolate_type :: string

record QualityControlSystem =
  sensors :: "string \<rightharpoonup> QualitySensor"
  results :: "inspection_record list"

datatype error = ValueError string | ZeroDivisionError

definition QualityControlSystem_init :: QualityControlSystem where
  "QualityControlSystem_init = \<lparr>sensors = Map.empty, results = []\<rparr>"

definition register_sensor ::
  "string \<Rightarrow> QualitySensor \<Rightarrow> QualityControlSystem \<Rightarrow> QualityControlSystem" where
  "register_sensor process sensor self = self\<lparr>sensors := (sensors self)(process \<mapsto> sensor)\<rparr>"

text \<open>
  \<^verbatim>\<open>_register_result\<close> reads the clock (\<^verbatim>\<open>datetime.now()\<close>, the argument
  \<open>now\<close>) and appends one entry.
\<close>

definition register_result ::
  "chocolate \<Rightarrow> DefectType list \<Rightarrow> QualityStatus \<Rightarrow> string \<Rightarrow> datetime
     \<Rightarrow> QualityControlSystem \<Rightarrow> QualityControlSystem" where
  "register_result chocolate dfs result process now self =
     (let record =
        \<lparr>rec_batch_id = batch_id chocolate,
         rec_date = now,
         rec_process = process,
         rec_defects = map DefectType_value dfs,
         rec_result = QualityStatus_value result,
         rec_chocolate_type = class_name (cls chocolate)\<rparr>
      in self\<lparr>results := results self @ [record]\<rparr>)"

text \<open>
  \<^verbatim>\<open>inspect_chocolate\<close> mutates the system and the product it is given and may
  raise. The model returns the outcome (the exception or the returned status) together
  with the system, the product and the entropy source as the call leaves them.
\<close>

definition inspect_chocolate ::
  "chocolate \<Rightarrow> string \<Rightarrow> datetime \<Rightarrow> random_source \<Rightarrow> QualityControlSystem
     \<Rightarrow> (error + QualityStatus) \<times> QualityControlSystem \<times> chocolate \<times> random_source" where
  "inspect_chocolate chocolate process now rnd self =
     (case sensors self process of
        None \<Rightarrow>
          (Inl (ValueError (''No sensor registered for process: '' @ process)),
           self, chocolate, rnd)
      | Some sensor \<Rightarrow>
          (case detect_defects sensor chocolate rnd of (dfs, rnd') \<Rightarrow>
             (let chocolate' = foldl (\<lambda>c defect. add_defect defect c) chocolate dfs in
              case evaluate_quality chocolate' of (result, chocolate'') \<Rightarrow>
                (Inr result, register_result chocolate'' dfs result process now self,
                 chocolate'', rnd'))))"

section \<open>Numbers and text\<close>

text \<open>
  \<^verbatim>\<open>str\<close> of an integer, as the f-strings of the reports apply it.
\<close>

definition digit :: "int \<Rightarrow> char" where
  "digit d = ''0123456789'' ! nat d"

function decimal_digits :: "int \<Rightarrow> string" where
  "decimal_digits n =
     (if n < 10 then [digit n] else decimal_digits (n div 10) @ [digit (n mod 10)])"
  by pat_completeness auto
termination
  by (relation "measure nat") auto

definition str_int :: "int \<Rightarrow> string" where
  "str_int n = (if n < 0 then ''-'' @ decimal_digits (- n) else decimal_digits n)"

text \<open>
  Python's \<^verbatim>\<open>float\<close> is IEEE 754 binary64. A finite float is the rational number it
  denotes; an operation computes the exact result and rounds it to the nearest
  representable number, ties to the even significand (53 bits, least exponent
  \<open>-1074\<close>). \<open>binary_exponent x\<close> is the \<open>e\<close> with \<open>2 ^ e \<le> x < 2 ^ (e + 1)\<close> for
  \<open>x > 0\<close>. Only values between 0 and 100 occur in the report, so overflow and
  signs are left out.
\<close>

function bit_length :: "int \<Rightarrow> int" where
  "bit_length n = (if n \<le> 0 then 0 else 1 + bit_length (n div 2))"
  by pat_completeness auto
termination
  by (relation "measure nat") auto

definition pow2 :: "int \<Rightarrow> rat" where
  "pow2 e = (if 0 \<le> e then 2 ^ nat e else 1 / 2 ^ nat (- e))"

definition round_half_even :: "rat \<Rightarrow> int" where
  "round_half_even x =
     (let f = \<lfloor>x\<rfloor>; d = x - of_int f
      in if d < 1 / 2 then f else if 1 / 2 < d then f + 1 else if even f then f else f + 1)"

definition binary_exponent :: "rat \<Rightarrow> int" where
  "binary_exponent x =
     (case quotient_of x of (p, q) \<Rightarrow>
        (let e0 = bit_length p - bit_length q
         in if pow2 e0 \<le> x then e0 else e0 - 1))"

definition round_binary64 :: "rat \<Rightarrow> rat" where
  "round_binary64 x =
     (if x = 0 then 0
      else let q = pow2 (max (binary_exponent x - 52) (- 1074))
           in of_int (round_half_even (x / q)) * q)"

text \<open>
  \<^verbatim>\<open>a / b\<close> on integers is the correctly rounded quotient and raises on a zero
  divisor; \<^verbatim>\<open>x * 100\<close> converts the integer (exactly) and rounds the product;
  \<^verbatim>\<open>format(x, '.2f')\<close> prints the decimal with two fractional digits nearest to
  the float, ties to even.
\<close>

definition truediv :: "int \<Rightarrow> int \<Rightarrow> error + rat" where
  "truediv a b =
     (if b = 0 then Inl ZeroDivisionError else Inr (round_binary64 (of_int a / of_int b)))"

definition float_mul_int :: "rat \<Rightarrow> int \<Rightarrow> rat" where
  "float_mul_int x n = round_binary64 (x * of_int n)"

definition format_2f :: "rat \<Rightarrow> string" where
  "format_2f x =
     (let n = round_half_even (x * 100)
      in str_int (n div 100) @ ''.'' @ [digit (n mod 100 div 10), digit (n mod 10)])"

section \<open>Reports\<close>

text \<open>
  \<^verbatim>\<open>generate_report\<close>. The dictionary \<^verbatim>\<open>defect_counter\<close> keeps its keys in the
  order of their first insertion, which is what \<open>AList.update\<close> does on an
  association list. The f-string is the text between the triple quotes, with its line
  breaks and its indentation of eight spaces.
\<close>

definition dict_get :: "('k \<times> 'v) list \<Rightarrow> 'k \<Rightarrow> 'v \<Rightarrow> 'v" where
  "dict_get d k dflt = (case map_of d k of None \<Rightarrow> dflt | Some v \<Rightarrow> v)"

definition count_defects :: "inspection_record list \<Rightarrow> (string \<times> int) list" where
  "count_defects rs =
     foldl (\<lambda>defect_counter result.
        foldl (\<lambda>defect_counter defect.
           AList.update defect (dict_get defect_counter defect 0 + 1) defect_counter)
          defect_counter (rec_defects result))
       [] rs"

definition report_header :: "int \<Rightarrow> int \<Rightarrow> rat \<Rightarrow> string" where
  "report_header total_inspections approved approval_rate =
     ''\<newline>        QUALITY CONTROL REPORT'' @
     ''\<newline>        ======================'' @
     ''\<newline>        Total inspections: '' @ str_int total_inspections @
     ''\<newline>        Approved products: '' @ str_int approved @
     ''\<newline>        Rejected products: '' @ str_int (total_inspections - approved) @
     ''\<newline>        Approval rate: '' @ format_2f approval_rate @ ''%'' @
     ''\<newline>        '' @
     ''\<newline>        Defect details:'' @
     ''\<newline>        ''"

definition generate_report :: "QualityControlSystem \<Rightarrow> error + string" where
  "generate_report self =
     (if results self = [] then Inr ''No inspection data available to generate report.''
      else
        let total_inspections = int (length (results self));
            approved = sum_list (map (\<lambda>r. 1)
              (filter (\<lambda>r. rec_result r = QualityStatus_value APPROVED) (results self)))
        in case (if total_inspections > 0
                 then (case truediv approved total_inspections of
                         Inl e \<Rightarrow> Inl e
                       | Inr ratio \<Rightarrow> Inr (float_mul_int ratio 100))
                 else Inr 0) of
             Inl e \<Rightarrow> Inl e
           | Inr approval_rate \<Rightarrow>
               (let report = report_header total_inspections approved approval_rate;
                    defect_counter = count_defects (results self)
                in if defect_counter \<noteq> []
                   then Inr (foldl (\<lambda>report (defect, count).
                          report @ ''  - '' @ defect @ '': '' @ str_int count
                            @ '' occurrences\<newline>'') report defect_counter)
                   else Inr (report @ ''  No defects detected\<newline>'')))"

text \<open>
  \<^verbatim>\<open>show_inspections\<close>. \<^verbatim>\<open>strftime\<close> belongs to \<^verbatim>\<open>datetime\<close> and is a parameter.
\<close>

fun join_str :: "string \<Rightarrow> string list \<Rightarrow> string" where
  "join_str sep [] = []"
| "join_str sep [x] = x"
| "join_str sep (x # y # ys) = x @ sep @ join_str sep (y # ys)"

definition show_inspections :: "(datetime \<Rightarrow> string) \<Rightarrow> QualityControlSystem \<Rightarrow> string" where
  "show_inspections strftime self =
     (if results self = [] then ''No inspections registered.''
      else
        foldl (\<lambda>report (i, result).
            report
            @ str_int i @ ''. Batch: '' @ rec_batch_id result @ '' | ''
            @ ''Process: '' @ rec_process result @ '' | ''
            @ ''Result: '' @ rec_result result @ ''\<newline>''
            @ (if rec_defects result \<noteq> []
               then ''   Defects: '' @ join_str '', '' (rec_defects result) @ ''\<newline>''
               else [])
            @ ''   Date: '' @ strftime (rec_date result) @ ''\<newline>''
            @ replicate 50 (CHR ''-'') @ ''\<newline>'')
          (''INSPECTION HISTORY\<newline>'' @ replicate 50 (CHR ''='') @ ''\<newline>'')
          (zip (map int [1 ..< Suc (length (results self))]) (results self)))"

section \<open>Sequences of calls\<close>

text \<open>
  The public methods of \<^verbatim>\<open>QualityControlSystem\<close> as the calls a client makes, and a
  run of such calls against one system. An inspection names the product as it is when
  the call is made and the time the clock shows. The two reports return text and
  assign nothing.
\<close>

datatype call =
  Register_sensor string QualitySensor
| Inspect_chocolate chocolate string datetime
| Generate_report
| Show_inspections

fun perform ::
  "call \<Rightarrow> QualityControlSystem \<times> random_source \<Rightarrow> QualityControlSystem \<times> random_source" where
  "perform (Register_sensor process sensor) (self, rnd) = (register_sensor process sensor self, rnd)"
| "perform (Inspect_chocolate chocolate process now) (self, rnd) =
     (case inspect_chocolate chocolate process now rnd self of
        (outcome, self', chocolate', rnd') \<Rightarrow> (self', rnd'))"
| "perform Generate_report (self, rnd) = (self, rnd)"
| "perform Show_inspections (self, rnd) = (self, rnd)"

fun inspection_succeeds :: "call \<Rightarrow> QualityControlSystem \<times> random_source \<Rightarrow> bool" where
  "inspection_succeeds (Inspect_chocolate chocolate process now) (self, rnd) =
     (case fst (inspect_chocolate chocolate process now rnd self) of
        Inl e \<Rightarrow> False | Inr status \<Rightarrow> True)"
| "inspection_succeeds c st = False"

fun run ::
  "call list \<Rightarrow> QualityControlSystem \<times> random_source \<Rightarrow> QualityControlSystem \<times> random_source" where
  "run [] st = st"
| "run (c # cs) st = run cs (perform c st)"

fun successful_inspections :: "call list \<Rightarrow> QualityControlSystem \<times> random_source \<Rightarrow> nat" where
  "successful_inspections [] st = 0"
| "successful_inspections (c # cs) st =
     (if inspection_succeeds c st then 1 else 0) + successful_inspections cs (perform c st)"

section \<open>The defect list as an object\<close>

text \<open>
  The property \<^verbatim>\<open>defects\<close> returns \<^verbatim>\<open>self._defects.copy()\<close>. What a copy is, as
  opposed to the list itself, shows only where lists are objects with an identity: a
  heap of list objects, addressed by position, in which \<^verbatim>\<open>_defects\<close> is an address.
  \<open>load\<close> reads a product object out of a heap as the product value the sections above
  work with.
\<close>

type_synonym address = nat
type_synonym heap = "DefectType list list"

record chocolate_object =
  obj_batch_id :: string
  obj_production_date :: datetime
  obj_defects :: address
  obj_quality_status :: QualityStatus
  obj_cls :: chocolate_class

definition load :: "heap \<Rightarrow> chocolate_object \<Rightarrow> chocolate" where
  "load h self =
     \<lparr>batch_id = obj_batch_id self, production_date = obj_production_date self,
      defects = h ! obj_defects self, quality_status = obj_quality_status self,
      cls = obj_cls self\<rparr>"

text \<open>\<^verbatim>\<open>list.copy()\<close> allocates a new list object holding the same elements.\<close>

definition list_copy :: "address \<Rightarrow> heap \<Rightarrow> address \<times> heap" where
  "list_copy a h = (length h, h @ [h ! a])"

definition defects_property :: "chocolate_object \<Rightarrow> heap \<Rightarrow> address \<times> heap" where
  "defects_property self h = list_copy (obj_defects self) h"

text \<open>
  A mutation of the list object at an address (\<^verbatim>\<open>append\<close>, \<^verbatim>\<open>remove\<close>,
  \<^verbatim>\<open>clear\<close>, an item assignment, ...) replaces its contents by a function of them.
\<close>

definition mutate :: "address \<Rightarrow> (DefectType list \<Rightarrow> DefectType list) \<Rightarrow> heap \<Rightarrow> heap" where
  "mutate a f h = h[a := f (h ! a)]"

section \<open>Test doubles\<close>

text \<open>
  A sensor that reports the same defects for every product, and an entropy source
  whose draws are all the same number.
\<close>

definition fixed_sensor :: "DefectType list \<Rightarrow> QualitySensor" where
  "fixed_sensor ds = OtherSensor (\<lambda>chocolate. ds)"

definition constant_source :: "nat \<Rightarrow> random_source" where
  "constant_source x = (\<lambda>i. x)"

section \<open>Reading printed numbers\<close>

text \<open>
  The reports show numbers as text. To say which number a text shows, the text is read
  back: \<open>decimal_value\<close> is the number a string of decimal digits denotes, and
  \<open>decimal_numeral s k\<close> says that \<open>s\<close> is the numeral of \<open>k\<close> without leading zeros.
\<close>

definition is_digit :: "char \<Rightarrow> bool" where
  "is_digit c \<longleftrightarrow> c \<in> set ''0123456789''"

definition decimal_value :: "string \<Rightarrow> nat" where
  "decimal_value s = foldl (\<lambda>v c. 10 * v + (of_char c - 48)) 0 s"

definition decimal_numeral :: "string \<Rightarrow> nat \<Rightarrow> bool" where
  "decimal_numeral s k \<longleftrightarrow>
     s \<noteq> [] \<and> list_all is_digit s \<and> (hd s = CHR ''0'' \<longrightarrow> s = ''0'') \<and> decimal_value s = k"

text \<open>
  Rounding to nearest, ties to even, stated without saying how it is computed:
  \<open>nearest_even y n\<close> holds for the integer \<open>n\<close> nearest to \<open>y\<close>, the even one of the
  two when \<open>y\<close> lies halfway. \<open>rounded_to_binary64 x r\<close> holds when \<open>r\<close> is the binary64
  number nearest to \<open>x \<ge> 0\<close>: with \<open>2 ^ e \<le> x < 2 ^ (e + 1)\<close> the binary64 numbers around
  \<open>x\<close> are the multiples of \<open>2 ^ (e - 52)\<close>, or of \<open>2 ^ -1074\<close> where \<open>x\<close> is subnormal,
  and \<open>r\<close> is the nearest multiple, the one with the even significand on a tie.
\<close>

definition nearest_even :: "rat \<Rightarrow> int \<Rightarrow> bool" where
  "nearest_even y n \<longleftrightarrow>
     \<bar>of_int n - y\<bar> \<le> 1 / 2 \<and> (\<bar>of_int n - y\<bar> = 1 / 2 \<longrightarrow> even n)"

definition rounded_to_binary64 :: "rat \<Rightarrow> rat \<Rightarrow> bool" where
  "rounded_to_binary64 x r \<longleftrightarrow>
     (x = 0 \<and> r = 0)
     \<or> (0 < x \<and> (\<exists>e n. 2 powi e \<le> x \<and> x < 2 powi (e + 1)
            \<and> nearest_even (x / 2 powi (max (e - 52) (- 1074))) n
            \<and> r = of_int n * 2 powi (max (e - 52) (- 1074))))"

text \<open>A ledger of three inspections, two of them approved.\<close>

definition sample_system :: QualityControlSystem where
  "sample_system = QualityControlSystem_init\<lparr>results :=
      [\<lparr>rec_batch_id = ''B1'', rec_date = 1, rec_process = ''molding'', rec_defects = [],
        rec_result = ''approved'', rec_chocolate_type = ''MoldedChocolate''\<rparr>,
       \<lparr>rec_batch_id = ''B2'', rec_date = 2, rec_process = ''molding'',
        rec_defects = [''air_bubbles''],
        rec_result = ''rejected'', rec_chocolate_type = ''MoldedChocolate''\<rparr>,
       \<lparr>rec_batch_id = ''B3'', rec_date = 3, rec_process = ''packaging'', rec_defects = [],
        rec_result = ''approved'', rec_chocolate_type = ''PackagedChocolate''\<rparr>]\<rparr>"

section \<open>Evaluation rules\<close>

text \<open>
  C1. A molded chocolate is rejected exactly when its defects include one of bubbles,
  breakage or incorrect shape, and approved otherwise; stains alone leave it approved.
  The product keeps the status the call returns.
\<close>

theorem molded_rejected_iff_fatal_defect:
  assumes "cls self = MoldedChocolate mold_type"
  shows "(fst (evaluate_quality self) = REJECTED
            \<longleftrightarrow> set (defects self) \<inter> {BUBBLES, BREAKAGE, INCORRECT_SHAPE} \<noteq> {})
       \<and> (fst (evaluate_quality self) = APPROVED
            \<longleftrightarrow> set (defects self) \<inter> {BUBBLES, BREAKAGE, INCORRECT_SHAPE} = {})
       \<and> (set (defects self) \<subseteq> {STAINS} \<longrightarrow> fst (evaluate_quality self) = APPROVED)
       \<and> snd (evaluate_quality self) = self\<lparr>quality_status := fst (evaluate_quality self)\<rparr>"
  using assms by (auto simp: evaluate_quality_def MoldedChocolate_evaluate_quality_def)

theorem molded_rejected_iff_fatal_defect_witness:
  "cls (add_defect STAINS (MoldedChocolate_init ''B1'' 0 ''heart'')) = MoldedChocolate ''heart''
   \<and> set (defects (add_defect STAINS (MoldedChocolate_init ''B1'' 0 ''heart''))) \<subseteq> {STAINS}
   \<and> fst (evaluate_quality (add_defect STAINS (MoldedChocolate_init ''B1'' 0 ''heart''))) = APPROVED
   \<and> cls (add_defect BUBBLES (MoldedChocolate_init ''B2'' 0 ''heart'')) = MoldedChocolate ''heart''
   \<and> fst (evaluate_quality (add_defect BUBBLES (MoldedChocolate_init ''B2'' 0 ''heart''))) = REJECTED"
proof -
  have a: "cls (add_defect STAINS (MoldedChocolate_init ''B1'' 0 ''heart'')) = MoldedChocolate ''heart''"
    by (simp add: add_defect_def MoldedChocolate_init_def Chocolate_init_def)
  have b: "cls (add_defect BUBBLES (MoldedChocolate_init ''B2'' 0 ''heart'')) = MoldedChocolate ''heart''"
    by (simp add: add_defect_def MoldedChocolate_init_def Chocolate_init_def)
  have s: "set (defects (add_defect STAINS (MoldedChocolate_init ''B1'' 0 ''heart''))) \<subseteq> {STAINS}"
    by (simp add: add_defect_def MoldedChocolate_init_def Chocolate_init_def)
  have t: "set (defects (add_defect BUBBLES (MoldedChocolate_init ''B2'' 0 ''heart'')))
             \<inter> {BUBBLES, BREAKAGE, INCORRECT_SHAPE} \<noteq> {}"
    by (simp add: add_defect_def MoldedChocolate_init_def Chocolate_init_def)
  show ?thesis
    using a b s t molded_rejected_iff_fatal_defect [OF a] molded_rejected_iff_fatal_defect [OF b]
    by blast
qed

text \<open>
  C2. A packaged chocolate is rejected exactly when its defects include one of
  breakage, damaged packaging or missing piece, and approved otherwise.
\<close>

theorem packaged_rejected_iff_fatal_defect:
  assumes "cls self = PackagedChocolate packaging_type"
  shows "(fst (evaluate_quality self) = REJECTED
            \<longleftrightarrow> set (defects self) \<inter> {BREAKAGE, DAMAGED_PACKAGING, MISSING_PIECE} \<noteq> {})
       \<and> (fst (evaluate_quality self) = APPROVED
            \<longleftrightarrow> set (defects self) \<inter> {BREAKAGE, DAMAGED_PACKAGING, MISSING_PIECE} = {})
       \<and> snd (evaluate_quality self) = self\<lparr>quality_status := fst (evaluate_quality self)\<rparr>"
  using assms by (auto simp: evaluate_quality_def PackagedChocolate_evaluate_quality_def)

theorem packaged_rejected_iff_fatal_defect_witness:
  "cls (add_defect INCORRECT_SHAPE (PackagedChocolate_init ''B1'' 0 ''gift_box''))
     = PackagedChocolate ''gift_box''
   \<and> fst (evaluate_quality (add_defect INCORRECT_SHAPE (PackagedChocolate_init ''B1'' 0 ''gift_box'')))
     = APPROVED
   \<and> cls (add_defect MISSING_PIECE (PackagedChocolate_init ''B2'' 0 ''gift_box''))
     = PackagedChocolate ''gift_box''
   \<and> fst (evaluate_quality (add_defect MISSING_PIECE (PackagedChocolate_init ''B2'' 0 ''gift_box'')))
     = REJECTED"
proof -
  have a: "cls (add_defect INCORRECT_SHAPE (PackagedChocolate_init ''B1'' 0 ''gift_box''))
             = PackagedChocolate ''gift_box''"
    by (simp add: add_defect_def PackagedChocolate_init_def Chocolate_init_def)
  have b: "cls (add_defect MISSING_PIECE (PackagedChocolate_init ''B2'' 0 ''gift_box''))
             = PackagedChocolate ''gift_box''"
    by (simp add: add_defect_def PackagedChocolate_init_def Chocolate_init_def)
  have s: "set (defects (add_defect INCORRECT_SHAPE (PackagedChocolate_init ''B1'' 0 ''gift_box'')))
             \<inter> {BREAKAGE, DAMAGED_PACKAGING, MISSING_PIECE} = {}"
    by (simp add: add_defect_def PackagedChocolate_init_def Chocolate_init_def)
  have t: "set (defects (add_defect MISSING_PIECE (PackagedChocolate_init ''B2'' 0 ''gift_box'')))
             \<inter> {BREAKAGE, DAMAGED_PACKAGING, MISSING_PIECE} \<noteq> {}"
    by (simp add: add_defect_def PackagedChocolate_init_def Chocolate_init_def)
  show ?thesis
    using a b s t packaged_rejected_iff_fatal_defect [OF a] packaged_rejected_iff_fatal_defect [OF b]
    by blast
qed

text \<open>
  C7. A product of the base class is approved when it has no defect and rejected
  otherwise. For a product of any class the call returns approved or rejected, never
  pending, and leaves that status in the product; the function has no raising path and
  is total.
\<close>

theorem evaluate_quality_base_rule_and_verdict:
  "(cls self = Chocolate \<longrightarrow>
      fst (evaluate_quality self) = (if defects self = [] then APPROVED else REJECTED))
   \<and> (fst (evaluate_quality self) = APPROVED \<or> fst (evaluate_quality self) = REJECTED)
   \<and> fst (evaluate_quality self) \<noteq> PENDING
   \<and> quality_status (snd (evaluate_quality self)) = fst (evaluate_quality self)"
  by (cases "cls self")
     (simp_all add: evaluate_quality_def Chocolate_evaluate_quality_def
        MoldedChocolate_evaluate_quality_def PackagedChocolate_evaluate_quality_def)

theorem evaluate_quality_base_rule_and_verdict_witness:
  "cls (Chocolate_init ''B1'' 0) = Chocolate
   \<and> fst (evaluate_quality (Chocolate_init ''B1'' 0)) = APPROVED
   \<and> cls (add_defect STAINS (Chocolate_init ''B2'' 0)) = Chocolate
   \<and> fst (evaluate_quality (add_defect STAINS (Chocolate_init ''B2'' 0))) = REJECTED"
proof -
  have a: "cls (Chocolate_init ''B1'' 0) = Chocolate \<and> defects (Chocolate_init ''B1'' 0) = []"
    by (simp add: Chocolate_init_def)
  have b: "cls (add_defect STAINS (Chocolate_init ''B2'' 0)) = Chocolate
           \<and> defects (add_defect STAINS (Chocolate_init ''B2'' 0)) \<noteq> []"
    by (simp add: add_defect_def Chocolate_init_def)
  show ?thesis
    using a b evaluate_quality_base_rule_and_verdict [of "Chocolate_init ''B1'' 0"]
      evaluate_quality_base_rule_and_verdict [of "add_defect STAINS (Chocolate_init ''B2'' 0)"]
    by simp
qed

section \<open>Adding defects\<close>

text \<open>
  C8. \<^verbatim>\<open>add_defect\<close> always returns. Adding a defect a second time changes nothing, so
  the list is as long as after the first time; a defect already present leaves the
  product as it is; an absent one is appended; the defects are then the old ones
  together with the added one, the old list being kept as a prefix, so none is removed.
\<close>

theorem add_defect_idempotent_insert:
  "add_defect d (add_defect d self) = add_defect d self
   \<and> length (defects (add_defect d (add_defect d self))) = length (defects (add_defect d self))
   \<and> (d \<in> set (defects self) \<longrightarrow> add_defect d self = self)
   \<and> (d \<notin> set (defects self) \<longrightarrow> defects (add_defect d self) = defects self @ [d])
   \<and> set (defects (add_defect d self)) = insert d (set (defects self))
   \<and> take (length (defects self)) (defects (add_defect d self)) = defects self"
  by (auto simp: add_defect_def)

theorem add_defect_idempotent_insert_witness:
  "defects (add_defect BREAKAGE (add_defect BREAKAGE (add_defect STAINS (Chocolate_init ''B1'' 0))))
     = [STAINS, BREAKAGE]
   \<and> STAINS \<in> set (defects (add_defect STAINS (Chocolate_init ''B1'' 0)))
   \<and> add_defect STAINS (add_defect STAINS (Chocolate_init ''B1'' 0))
     = add_defect STAINS (Chocolate_init ''B1'' 0)"
proof -
  have a: "defects (add_defect STAINS (Chocolate_init ''B1'' 0)) = [STAINS]"
    by (simp add: add_defect_def Chocolate_init_def)
  have b: "defects (add_defect BREAKAGE (add_defect STAINS (Chocolate_init ''B1'' 0)))
             = [STAINS, BREAKAGE]"
    by (simp add: add_defect_def Chocolate_init_def)
  show ?thesis
    using a b
      add_defect_idempotent_insert [of BREAKAGE "add_defect STAINS (Chocolate_init ''B1'' 0)"]
      add_defect_idempotent_insert [of STAINS "add_defect STAINS (Chocolate_init ''B1'' 0)"]
    by simp
qed

section \<open>Inspection\<close>

lemma foldl_add_defect_fields:
  "batch_id (foldl (\<lambda>c defect. add_defect defect c) chocolate dfs) = batch_id chocolate
   \<and> production_date (foldl (\<lambda>c defect. add_defect defect c) chocolate dfs)
       = production_date chocolate
   \<and> quality_status (foldl (\<lambda>c defect. add_defect defect c) chocolate dfs)
       = quality_status chocolate
   \<and> cls (foldl (\<lambda>c defect. add_defect defect c) chocolate dfs) = cls chocolate"
  by (induction dfs arbitrary: chocolate) (simp_all add: add_defect_def)

lemma set_defects_foldl_add_defect:
  "set (defects (foldl (\<lambda>c defect. add_defect defect c) chocolate dfs))
     = set (defects chocolate) \<union> set dfs"
  by (induction dfs arbitrary: chocolate) (auto simp: add_defect_def)

lemma evaluate_quality_fields:
  "batch_id (snd (evaluate_quality self)) = batch_id self
   \<and> production_date (snd (evaluate_quality self)) = production_date self
   \<and> defects (snd (evaluate_quality self)) = defects self
   \<and> cls (snd (evaluate_quality self)) = cls self
   \<and> quality_status (snd (evaluate_quality self)) = fst (evaluate_quality self)"
  by (cases "cls self")
     (simp_all add: evaluate_quality_def Chocolate_evaluate_quality_def
        MoldedChocolate_evaluate_quality_def PackagedChocolate_evaluate_quality_def)

lemma inspect_chocolate_registered:
  assumes "sensors self process = Some sensor"
  shows "inspect_chocolate chocolate process now rnd self =
     (let dfs = fst (detect_defects sensor chocolate rnd);
          merged = foldl (\<lambda>c defect. add_defect defect c) chocolate dfs
      in (Inr (fst (evaluate_quality merged)),
          self\<lparr>results := results self @
            [\<lparr>rec_batch_id = batch_id chocolate, rec_date = now, rec_process = process,
              rec_defects = map DefectType_value dfs,
              rec_result = QualityStatus_value (fst (evaluate_quality merged)),
              rec_chocolate_type = class_name (cls chocolate)\<rparr>]\<rparr>,
          snd (evaluate_quality merged),
          snd (detect_defects sensor chocolate rnd)))"
  using assms
  by (simp add: inspect_chocolate_def register_result_def Let_def split_beta
        evaluate_quality_fields foldl_add_defect_fields)

text \<open>
  C3. When no sensor is registered for the process, \<^verbatim>\<open>inspect_chocolate\<close> raises the
  \<^verbatim>\<open>ValueError\<close> that names the process, and the system (so the ledger), the product
  (so its defects and status) and the entropy source are as they were before the call.
\<close>

theorem inspect_unregistered_process_raises:
  assumes "sensors self process = None"
  shows "inspect_chocolate chocolate process now rnd self =
           (Inl (ValueError (''No sensor registered for process: '' @ process)),
            self, chocolate, rnd)"
  using assms by (simp add: inspect_chocolate_def)

theorem inspect_unregistered_process_raises_witness:
  "sensors (register_sensor ''molding'' VisualSensor QualityControlSystem_init) ''packaging'' = None
   \<and> inspect_chocolate (add_defect STAINS (PackagedChocolate_init ''B1'' 0 ''gift_box''))
        ''packaging'' 7 (constant_source 1)
        (register_sensor ''molding'' VisualSensor QualityControlSystem_init)
      = (Inl (ValueError ''No sensor registered for process: packaging''),
         register_sensor ''molding'' VisualSensor QualityControlSystem_init,
         add_defect STAINS (PackagedChocolate_init ''B1'' 0 ''gift_box''),
         constant_source 1)"
proof -
  have h: "sensors (register_sensor ''molding'' VisualSensor QualityControlSystem_init)
             ''packaging'' = None"
    by (simp add: register_sensor_def QualityControlSystem_init_def)
  show ?thesis
    using h inspect_unregistered_process_raises [OF h] by simp
qed

text \<open>
  C6. A call of \<^verbatim>\<open>inspect_chocolate\<close> for a registered process returns a status and
  appends one entry, which holds the values of exactly the defects the sensor returned
  in this call, in their order and with their repetitions, the batch id of the product,
  the process name, the value of the returned status and the name of the product's
  class. The defects the product had before are not in the entry.
\<close>

theorem inspect_appends_record_of_this_call:
  assumes "sensors self process = Some sensor"
  shows "\<exists>status chocolate' rnd'.
     inspect_chocolate chocolate process now rnd self =
       (Inr status,
        self\<lparr>results := results self @
          [\<lparr>rec_batch_id = batch_id chocolate, rec_date = now, rec_process = process,
            rec_defects = map DefectType_value (fst (detect_defects sensor chocolate rnd)),
            rec_result = QualityStatus_value status,
            rec_chocolate_type = class_name (cls chocolate)\<rparr>]\<rparr>,
        chocolate', rnd')
     \<and> quality_status chocolate' = status
     \<and> set (defects chocolate')
         = set (defects chocolate) \<union> set (fst (detect_defects sensor chocolate rnd))"
  using inspect_chocolate_registered [OF assms, of chocolate now rnd]
  by (simp add: Let_def evaluate_quality_fields set_defects_foldl_add_defect)

theorem inspect_appends_record_of_this_call_witness:
  "sensors (register_sensor ''molding'' (fixed_sensor [BUBBLES, BUBBLES]) QualityControlSystem_init)
     ''molding'' = Some (fixed_sensor [BUBBLES, BUBBLES])
   \<and> (\<exists>chocolate' rnd'.
        inspect_chocolate (add_defect STAINS (MoldedChocolate_init ''B1'' 0 ''heart''))
          ''molding'' 7 (constant_source 1)
          (register_sensor ''molding'' (fixed_sensor [BUBBLES, BUBBLES]) QualityControlSystem_init)
        = (Inr REJECTED,
           (register_sensor ''molding'' (fixed_sensor [BUBBLES, BUBBLES]) QualityControlSystem_init)
             \<lparr>results :=
                [\<lparr>rec_batch_id = ''B1'', rec_date = 7, rec_process = ''molding'',
                  rec_defects = [''air_bubbles'', ''air_bubbles''],
                  rec_result = ''rejected'',
                  rec_chocolate_type = ''MoldedChocolate''\<rparr>]\<rparr>,
           chocolate', rnd')
        \<and> set (defects chocolate') = {STAINS, BUBBLES})"
proof -
  let ?sys = "register_sensor ''molding'' (fixed_sensor [BUBBLES, BUBBLES]) QualityControlSystem_init"
  let ?c = "add_defect STAINS (MoldedChocolate_init ''B1'' 0 ''heart'')"
  have h: "sensors ?sys ''molding'' = Some (fixed_sensor [BUBBLES, BUBBLES])"
    by (simp add: register_sensor_def)
  have d: "fst (detect_defects (fixed_sensor [BUBBLES, BUBBLES]) ?c (constant_source 1))
             = [BUBBLES, BUBBLES]"
    by (simp add: detect_defects_def fixed_sensor_def)
  have c: "batch_id ?c = ''B1'' \<and> cls ?c = MoldedChocolate ''heart'' \<and> defects ?c = [STAINS]"
    by (simp add: add_defect_def MoldedChocolate_init_def Chocolate_init_def)
  have r: "results ?sys = []"
    by (simp add: register_sensor_def QualityControlSystem_init_def)
  from inspect_appends_record_of_this_call [OF h, of ?c 7 "constant_source 1"]
  obtain status chocolate' rnd' where
    i: "inspect_chocolate ?c ''molding'' 7 (constant_source 1) ?sys =
         (Inr status,
          ?sys\<lparr>results := results ?sys @
            [\<lparr>rec_batch_id = batch_id ?c, rec_date = 7, rec_process = ''molding'',
              rec_defects = map DefectType_value
                (fst (detect_defects (fixed_sensor [BUBBLES, BUBBLES]) ?c (constant_source 1))),
              rec_result = QualityStatus_value status,
              rec_chocolate_type = class_name (cls ?c)\<rparr>]\<rparr>,
          chocolate', rnd')"
    and q: "quality_status chocolate' = status"
    and s: "set (defects chocolate')
         = set (defects ?c)
           \<union> set (fst (detect_defects (fixed_sensor [BUBBLES, BUBBLES]) ?c (constant_source 1)))"
    by blast
  have m: "foldl (\<lambda>c defect. add_defect defect c) ?c [BUBBLES, BUBBLES]
             = (MoldedChocolate_init ''B1'' 0 ''heart'')\<lparr>defects := [STAINS, BUBBLES]\<rparr>"
    by (simp add: add_defect_def MoldedChocolate_init_def Chocolate_init_def)
  have e: "fst (inspect_chocolate ?c ''molding'' 7 (constant_source 1) ?sys) = Inr REJECTED"
  proof -
    have "fst (inspect_chocolate ?c ''molding'' 7 (constant_source 1) ?sys)
            = Inr (fst (evaluate_quality (foldl (\<lambda>c defect. add_defect defect c) ?c
                (fst (detect_defects (fixed_sensor [BUBBLES, BUBBLES]) ?c (constant_source 1))))))"
      by (simp only: inspect_chocolate_registered [OF h] Let_def fst_conv)
    also have "\<dots> = Inr (fst (evaluate_quality
        ((MoldedChocolate_init ''B1'' 0 ''heart'')\<lparr>defects := [STAINS, BUBBLES]\<rparr>)))"
      by (simp only: d m)
    also have "\<dots> = Inr REJECTED"
      by (simp add: evaluate_quality_def MoldedChocolate_evaluate_quality_def
            MoldedChocolate_init_def Chocolate_init_def)
    finally show ?thesis .
  qed
  have st: "status = REJECTED"
    using i e by simp
  have i': "inspect_chocolate ?c ''molding'' 7 (constant_source 1) ?sys =
         (Inr REJECTED,
          ?sys\<lparr>results :=
            [\<lparr>rec_batch_id = ''B1'', rec_date = 7, rec_process = ''molding'',
              rec_defects = [''air_bubbles'', ''air_bubbles''],
              rec_result = ''rejected'',
              rec_chocolate_type = ''MoldedChocolate''\<rparr>]\<rparr>,
          chocolate', rnd')"
    using i unfolding d st by (simp add: c r)
  have s': "set (defects chocolate') = {STAINS, BUBBLES}"
    using s unfolding d by (simp add: c insert_commute)
  show ?thesis
    using h i' s' by blast
qed

text \<open>
  C10. For a product of the base class \<^verbatim>\<open>VisualSensor.detect_defects\<close> returns the
  empty list, whatever defects the product has, and draws nothing from the entropy
  source. An inspection of such a product through a \<^verbatim>\<open>VisualSensor\<close> therefore adds
  no defect to it and records none; its status is approved when the product had no
  defect before the call and rejected when it had one.
\<close>

theorem visual_sensor_base_product:
  assumes "cls chocolate = Chocolate"
    and "sensors self process = Some VisualSensor"
  shows "detect_defects VisualSensor chocolate rnd = ([], rnd)
   \<and> inspect_chocolate chocolate process now rnd self =
       (Inr (if defects chocolate = [] then APPROVED else REJECTED),
        self\<lparr>results := results self @
          [\<lparr>rec_batch_id = batch_id chocolate, rec_date = now, rec_process = process,
            rec_defects = [],
            rec_result = QualityStatus_value (if defects chocolate = [] then APPROVED else REJECTED),
            rec_chocolate_type = ''Chocolate''\<rparr>]\<rparr>,
        chocolate\<lparr>quality_status := (if defects chocolate = [] then APPROVED else REJECTED)\<rparr>,
        rnd)"
  using assms
  by (simp add: inspect_chocolate_def detect_defects_def VisualSensor_detect_defects_def
        evaluate_quality_def Chocolate_evaluate_quality_def register_result_def)

theorem visual_sensor_base_product_witness:
  "cls (Chocolate_init ''B1'' 0) = Chocolate
   \<and> sensors (register_sensor ''visual'' VisualSensor QualityControlSystem_init) ''visual''
       = Some VisualSensor
   \<and> detect_defects VisualSensor (Chocolate_init ''B1'' 0) (constant_source 1)
       = ([], constant_source 1)
   \<and> fst (inspect_chocolate (Chocolate_init ''B1'' 0) ''visual'' 7 (constant_source 1)
        (register_sensor ''visual'' VisualSensor QualityControlSystem_init)) = Inr APPROVED"
proof -
  have a: "cls (Chocolate_init ''B1'' 0) = Chocolate"
    by (simp add: Chocolate_init_def)
  have b: "sensors (register_sensor ''visual'' VisualSensor QualityControlSystem_init) ''visual''
             = Some VisualSensor"
    by (simp add: register_sensor_def)
  have d: "defects (Chocolate_init ''B1'' 0) = []"
    by (simp add: Chocolate_init_def)
  show ?thesis
    using a b visual_sensor_base_product [OF a b, of "constant_source 1" 7]
    by (simp add: d)
qed

theorem visual_sensor_base_product_not_always_approved:
  "cls (add_defect STAINS (Chocolate_init ''B1'' 0)) = Chocolate
   \<and> fst (inspect_chocolate (add_defect STAINS (Chocolate_init ''B1'' 0)) ''visual'' 7
        (constant_source 1)
        (register_sensor ''visual'' VisualSensor QualityControlSystem_init)) = Inr REJECTED"
  by (simp add: inspect_chocolate_def register_sensor_def detect_defects_def
        VisualSensor_detect_defects_def add_defect_def Chocolate_init_def
        evaluate_quality_def Chocolate_evaluate_quality_def)

section \<open>The ledger\<close>

lemma perform_appends:
  "\<exists>r. results (fst (perform c st))
         = results (fst st) @ (if inspection_succeeds c st then [r] else [])"
proof (cases st)
  case (Pair self rnd)
  show ?thesis
  proof (cases c)
    case (Register_sensor process sensor)
    with Pair show ?thesis by (simp add: register_sensor_def)
  next
    case (Inspect_chocolate chocolate process now)
    show ?thesis
    proof (cases "sensors self process")
      case None
      with Pair Inspect_chocolate show ?thesis
        by (simp add: inspect_chocolate_def)
    next
      case (Some sensor)
      with Pair Inspect_chocolate show ?thesis
        by (simp add: inspect_chocolate_registered [OF Some] Let_def)
    qed
  next
    case Generate_report
    with Pair show ?thesis by simp
  next
    case Show_inspections
    with Pair show ?thesis by simp
  qed
qed

lemma run_appends:
  "\<exists>rs. results (fst (run cs st)) = results (fst st) @ rs
        \<and> length rs = successful_inspections cs st"
proof (induction cs arbitrary: st)
  case Nil
  show ?case by simp
next
  case (Cons c cs)
  obtain r where r: "results (fst (perform c st))
         = results (fst st) @ (if inspection_succeeds c st then [r] else [])"
    using perform_appends by blast
  obtain rs where rs: "results (fst (run cs (perform c st))) = results (fst (perform c st)) @ rs"
    and n: "length rs = successful_inspections cs (perform c st)"
    using Cons.IH by blast
  have "results (fst (run (c # cs) st))
          = results (fst st) @ ((if inspection_succeeds c st then [r] else []) @ rs)"
    using r rs by simp
  moreover have "length ((if inspection_succeeds c st then [r] else []) @ rs)
          = successful_inspections (c # cs) st"
    using n by simp
  ultimately show ?case by blast
qed

text \<open>
  C4. A call that is a successful inspection appends exactly one entry to the ledger
  and every other call leaves the ledger as it is. Over any sequence of calls the
  ledger therefore only grows at its end, the entries it had staying in place, by as
  many entries as there were successful inspections; starting from a new system its
  length is the number of successful inspections.
\<close>

theorem ledger_counts_successful_inspections:
  "(\<exists>r. results (fst (perform c (self, rnd)))
          = results self @ (if inspection_succeeds c (self, rnd) then [r] else []))
   \<and> (\<exists>rs. results (fst (run cs (self, rnd))) = results self @ rs
          \<and> length rs = successful_inspections cs (self, rnd))
   \<and> length (results (fst (run cs (QualityControlSystem_init, rnd))))
       = successful_inspections cs (QualityControlSystem_init, rnd)"
proof -
  have a: "\<exists>r. results (fst (perform c (self, rnd)))
          = results self @ (if inspection_succeeds c (self, rnd) then [r] else [])"
    using perform_appends [of c "(self, rnd)"] by simp
  have b: "\<exists>rs. results (fst (run cs (self, rnd))) = results self @ rs
          \<and> length rs = successful_inspections cs (self, rnd)"
    using run_appends [of cs "(self, rnd)"] by simp
  obtain rs where "results (fst (run cs (QualityControlSystem_init, rnd)))
        = results QualityControlSystem_init @ rs"
    and "length rs = successful_inspections cs (QualityControlSystem_init, rnd)"
    using run_appends [of cs "(QualityControlSystem_init, rnd)"] by auto
  then have c: "length (results (fst (run cs (QualityControlSystem_init, rnd))))
       = successful_inspections cs (QualityControlSystem_init, rnd)"
    by (simp add: QualityControlSystem_init_def)
  from a b c show ?thesis by blast
qed

theorem ledger_counts_successful_inspections_witness:
  "successful_inspections
     [Register_sensor ''molding'' (fixed_sensor [BUBBLES]),
      Inspect_chocolate (MoldedChocolate_init ''B1'' 0 ''heart'') ''molding'' 1,
      Inspect_chocolate (PackagedChocolate_init ''B2'' 0 ''gift_box'') ''packaging'' 2,
      Generate_report,
      Inspect_chocolate (MoldedChocolate_init ''B3'' 0 ''heart'') ''molding'' 3]
     (QualityControlSystem_init, constant_source 1) = 2
   \<and> length (results (fst (run
     [Register_sensor ''molding'' (fixed_sensor [BUBBLES]),
      Inspect_chocolate (MoldedChocolate_init ''B1'' 0 ''heart'') ''molding'' 1,
      Inspect_chocolate (PackagedChocolate_init ''B2'' 0 ''gift_box'') ''packaging'' 2,
      Generate_report,
      Inspect_chocolate (MoldedChocolate_init ''B3'' 0 ''heart'') ''molding'' 3]
     (QualityControlSystem_init, constant_source 1)))) = 2"
proof -
  let ?cs = "[Register_sensor ''molding'' (fixed_sensor [BUBBLES]),
      Inspect_chocolate (MoldedChocolate_init ''B1'' 0 ''heart'') ''molding'' 1,
      Inspect_chocolate (PackagedChocolate_init ''B2'' 0 ''gift_box'') ''packaging'' 2,
      Generate_report,
      Inspect_chocolate (MoldedChocolate_init ''B3'' 0 ''heart'') ''molding'' 3]"
  have n: "successful_inspections ?cs (QualityControlSystem_init, constant_source 1) = 2"
    by (simp add: inspect_chocolate_def register_sensor_def QualityControlSystem_init_def
          detect_defects_def fixed_sensor_def split_beta Let_def register_result_def)
  show ?thesis
    using n ledger_counts_successful_inspections
      [of "Generate_report" QualityControlSystem_init "constant_source 1" ?cs]
    by simp
qed

section \<open>The defects accessor\<close>

lemma mutations_elsewhere:
  "a \<noteq> b \<Longrightarrow> foldl (\<lambda>heap f. mutate a f heap) h fs ! b = h ! b"
  by (induction fs arbitrary: h) (simp_all add: mutate_def)

lemma mutations_there:
  "a < length h \<Longrightarrow> foldl (\<lambda>heap f. mutate a f heap) h fs ! a = foldl (\<lambda>xs f. f xs) (h ! a) fs"
  by (induction fs arbitrary: h) (simp_all add: mutate_def)

text \<open>
  C9. The list the property \<^verbatim>\<open>defects\<close> returns is a new object with the elements
  of the product's list. Whatever mutations are then applied to the returned list, they
  change that list only: the product reads as before, and \<^verbatim>\<open>evaluate_quality\<close>
  gives what it gave before.
\<close>

theorem defects_property_returns_copy:
  assumes "obj_defects self < length h"
  shows "fst (defects_property self h) \<noteq> obj_defects self
   \<and> snd (defects_property self h) ! fst (defects_property self h) = defects (load h self)
   \<and> foldl (\<lambda>heap f. mutate (fst (defects_property self h)) f heap) (snd (defects_property self h)) fs
        ! fst (defects_property self h)
       = foldl (\<lambda>xs f. f xs) (defects (load h self)) fs
   \<and> load (foldl (\<lambda>heap f. mutate (fst (defects_property self h)) f heap)
         (snd (defects_property self h)) fs) self
       = load h self
   \<and> evaluate_quality (load (foldl (\<lambda>heap f. mutate (fst (defects_property self h)) f heap)
         (snd (defects_property self h)) fs) self)
       = evaluate_quality (load h self)"
proof -
  let ?a = "fst (defects_property self h)"
  let ?h' = "snd (defects_property self h)"
  have a: "?a = length h" and h': "?h' = h @ [h ! obj_defects self]"
    by (simp_all add: defects_property_def list_copy_def)
  have fresh: "?a \<noteq> obj_defects self"
    using assms a by simp
  have copy: "?h' ! ?a = defects (load h self)"
    by (simp add: a h' load_def)
  have alloc: "?a < length ?h'"
    by (simp add: a h')
  have there: "foldl (\<lambda>heap f. mutate ?a f heap) ?h' fs ! ?a
       = foldl (\<lambda>xs f. f xs) (defects (load h self)) fs"
    using mutations_there [OF alloc, of fs] copy by simp
  have "foldl (\<lambda>heap f. mutate ?a f heap) ?h' fs ! obj_defects self = ?h' ! obj_defects self"
    using mutations_elsewhere [OF fresh] by blast
  also have "\<dots> = h ! obj_defects self"
    using assms by (simp add: h' nth_append)
  finally have same: "load (foldl (\<lambda>heap f. mutate ?a f heap) ?h' fs) self = load h self"
    by (simp add: load_def)
  from fresh copy there same show ?thesis by simp
qed

theorem defects_property_returns_copy_witness:
  "obj_defects \<lparr>obj_batch_id = ''B1'', obj_production_date = 0, obj_defects = 0,
       obj_quality_status = PENDING, obj_cls = MoldedChocolate ''heart''\<rparr> < length [[STAINS]]
   \<and> defects_property \<lparr>obj_batch_id = ''B1'', obj_production_date = 0, obj_defects = 0,
       obj_quality_status = PENDING, obj_cls = MoldedChocolate ''heart''\<rparr> [[STAINS]]
      = (1, [[STAINS], [STAINS]])
   \<and> foldl (\<lambda>heap f. mutate 1 f heap) [[STAINS], [STAINS]] [Cons BUBBLES, Cons BREAKAGE]
      = [[STAINS], [BREAKAGE, BUBBLES, STAINS]]
   \<and> fst (evaluate_quality (load
        (foldl (\<lambda>heap f. mutate 1 f heap) [[STAINS], [STAINS]] [Cons BUBBLES, Cons BREAKAGE])
        \<lparr>obj_batch_id = ''B1'', obj_production_date = 0, obj_defects = 0,
         obj_quality_status = PENDING, obj_cls = MoldedChocolate ''heart''\<rparr>)) = APPROVED"
proof -
  let ?self = "\<lparr>obj_batch_id = ''B1'', obj_production_date = 0, obj_defects = 0,
       obj_quality_status = PENDING, obj_cls = MoldedChocolate ''heart''\<rparr>"
  have h: "obj_defects ?self < length [[STAINS]]"
    by simp
  have p: "defects_property ?self [[STAINS]] = (1, [[STAINS], [STAINS]])"
    by (simp add: defects_property_def list_copy_def)
  have m: "foldl (\<lambda>heap f. mutate 1 f heap) [[STAINS], [STAINS]] [Cons BUBBLES, Cons BREAKAGE]
      = [[STAINS], [BREAKAGE, BUBBLES, STAINS]]"
    by (simp add: mutate_def)
  have e: "fst (evaluate_quality (load [[STAINS]] ?self)) = APPROVED"
    by (simp add: load_def evaluate_quality_def MoldedChocolate_evaluate_quality_def)
  show ?thesis
    using h p m e defects_property_returns_copy [OF h, of "[Cons BUBBLES, Cons BREAKAGE]"]
    by (simp add: p)
qed

section \<open>Floating-point rounding\<close>

declare bit_length.simps [simp del]

lemma bit_length_nonpos: "n \<le> 0 \<Longrightarrow> bit_length n = 0"
  by (subst bit_length.simps) simp

lemma bit_length_step: "0 < n \<Longrightarrow> bit_length n = 1 + bit_length (n div 2)"
  by (subst bit_length.simps) simp

lemma bit_length_nonneg: "0 \<le> bit_length n"
proof (induction n rule: bit_length.induct)
  case (1 n)
  show ?case
  proof (cases "n \<le> 0")
    case True
    then show ?thesis by (simp add: bit_length_nonpos)
  next
    case False
    then show ?thesis using "1.IH" by (simp add: bit_length_step)
  qed
qed

lemma bit_length_bounds:
  "0 < n \<Longrightarrow> 2 ^ nat (bit_length n - 1) \<le> n \<and> n < 2 ^ nat (bit_length n)"
proof (induction n rule: bit_length.induct)
  case (1 n)
  have bl: "bit_length n = 1 + bit_length (n div 2)"
    using "1.prems" by (rule bit_length_step)
  show ?case
  proof (cases "n = 1")
    case True
    have "bit_length 1 = 1"
      by (simp add: bit_length_step bit_length_nonpos)
    with True show ?thesis by simp
  next
    case False
    with "1.prems" have h: "0 < n div 2" by simp
    then have ih: "2 ^ nat (bit_length (n div 2) - 1) \<le> n div 2
        \<and> n div 2 < 2 ^ nat (bit_length (n div 2))"
      using "1.IH" "1.prems" by simp
    have p: "1 \<le> bit_length (n div 2)"
      using bit_length_step [OF h] bit_length_nonneg [of "n div 2 div 2"] by simp
    have e1: "nat (bit_length n - 1) = Suc (nat (bit_length (n div 2) - 1))"
      using bl p by simp
    have e2: "nat (bit_length n) = Suc (nat (bit_length (n div 2)))"
      using bl p by simp
    show ?thesis
      unfolding e1 e2 using ih by simp linarith
  qed
qed

lemma pow2_powi: "pow2 e = 2 powi e"
  by (simp add: pow2_def power_int_def inverse_eq_divide power_one_over)

lemma pow2_pos: "0 < pow2 e"
  by (simp add: pow2_powi)

lemma pow2_add: "pow2 (a + b) = pow2 a * pow2 b"
  by (simp add: pow2_powi power_int_add)

lemma bit_length_bounds_rat:
  assumes "0 < n"
  shows "pow2 (bit_length n - 1) \<le> of_int n" and "of_int n < pow2 (bit_length n)"
proof -
  have b: "1 \<le> bit_length n"
    using bit_length_step [OF assms] bit_length_nonneg [of "n div 2"] by simp
  from bit_length_bounds [OF assms]
  have l: "2 ^ nat (bit_length n - 1) \<le> n" and u: "n < 2 ^ nat (bit_length n)"
    by simp_all
  have "(of_int (2 ^ nat (bit_length n - 1)) :: rat) \<le> of_int n"
    using l by (simp only: of_int_le_iff)
  then show "pow2 (bit_length n - 1) \<le> of_int n"
    using b by (simp add: pow2_def)
  have "(of_int n :: rat) < of_int (2 ^ nat (bit_length n))"
    using u by (simp only: of_int_less_iff)
  then show "of_int n < pow2 (bit_length n)"
    using b by (simp add: pow2_def)
qed

lemma binary_exponent_bounds:
  assumes "0 < x"
  shows "pow2 (binary_exponent x) \<le> x \<and> x < pow2 (binary_exponent x + 1)"
proof -
  obtain p q where pq: "quotient_of x = (p, q)"
    by (cases "quotient_of x")
  have q: "0 < q"
    using pq by (rule quotient_of_denom_pos)
  have x: "x = of_int p / of_int q"
    using pq by (rule quotient_of_div)
  have p: "0 < p"
    using assms q x by (simp add: zero_less_divide_iff)
  let ?e0 = "bit_length p - bit_length q"
  have e: "binary_exponent x = (if pow2 ?e0 \<le> x then ?e0 else ?e0 - 1)"
    by (simp add: binary_exponent_def pq Let_def)
  have qr: "(0::rat) < of_int q"
    using q by simp
  have upper: "x < pow2 (?e0 + 1)"
  proof -
    have "of_int p < pow2 (bit_length p)"
      using bit_length_bounds_rat(2) [OF p] .
    also have "\<dots> = pow2 (?e0 + 1) * pow2 (bit_length q - 1)"
      by (simp add: pow2_add [symmetric])
    also have "\<dots> \<le> pow2 (?e0 + 1) * of_int q"
      using bit_length_bounds_rat(1) [OF q] pow2_pos [of "?e0 + 1"]
      by (simp add: mult_left_mono)
    finally show ?thesis
      using qr by (simp add: x pos_divide_less_eq)
  qed
  have lower: "pow2 (?e0 - 1) < x"
  proof -
    have "pow2 (?e0 - 1) * of_int q < pow2 (?e0 - 1) * pow2 (bit_length q)"
      using bit_length_bounds_rat(2) [OF q] pow2_pos [of "?e0 - 1"]
      by (simp add: mult_strict_left_mono)
    also have "\<dots> = pow2 (bit_length p - 1)"
      by (simp add: pow2_add [symmetric])
    also have "\<dots> \<le> of_int p"
      using bit_length_bounds_rat(1) [OF p] .
    finally show ?thesis
      using qr by (simp add: x pos_less_divide_eq)
  qed
  show ?thesis
  proof (cases "pow2 ?e0 \<le> x")
    case True
    with upper show ?thesis by (simp add: e)
  next
    case False
    then have "x < pow2 (?e0 - 1 + 1)" by simp
    with False lower show ?thesis by (simp add: e)
  qed
qed

lemma round_half_even_error: "\<bar>of_int (round_half_even y) - y\<bar> \<le> 1 / 2"
proof -
  have fl: "of_int \<lfloor>y\<rfloor> \<le> y" and fu: "y < of_int \<lfloor>y\<rfloor> + 1"
    by linarith+
  consider (lo) "y - of_int \<lfloor>y\<rfloor> < 1 / 2" | (hi) "1 / 2 < y - of_int \<lfloor>y\<rfloor>"
    | (tie) "y - of_int \<lfloor>y\<rfloor> = 1 / 2"
    by linarith
  then show ?thesis
  proof cases
    case lo
    then have "round_half_even y = \<lfloor>y\<rfloor>"
      by (simp add: round_half_even_def Let_def)
    with lo fl show ?thesis by simp
  next
    case hi
    then have "round_half_even y = \<lfloor>y\<rfloor> + 1"
      by (simp add: round_half_even_def Let_def)
    with hi fu show ?thesis by simp
  next
    case tie
    then have "round_half_even y = \<lfloor>y\<rfloor> \<or> round_half_even y = \<lfloor>y\<rfloor> + 1"
      by (simp add: round_half_even_def Let_def)
    with tie show ?thesis by auto
  qed
qed

lemma round_half_even_nonneg: "0 \<le> y \<Longrightarrow> 0 \<le> round_half_even y"
  by (auto simp: round_half_even_def Let_def)

lemma round_binary64_nonneg: "0 \<le> x \<Longrightarrow> 0 \<le> round_binary64 x"
  by (simp add: round_binary64_def Let_def round_half_even_nonneg less_imp_le [OF pow2_pos])

lemma round_binary64_error:
  assumes "0 \<le> x"
  shows "\<bar>round_binary64 x - x\<bar> \<le> x / 2 ^ 53 + 1 / 2 ^ 1075"
proof (cases "x = 0")
  case True
  then show ?thesis by (simp add: round_binary64_def)
next
  case False
  with assms have pos: "0 < x" by simp
  let ?e = "binary_exponent x"
  let ?q = "pow2 (max (?e - 52) (- 1074))"
  have q: "0 < ?q" by (rule pow2_pos)
  have r: "round_binary64 x = of_int (round_half_even (x / ?q)) * ?q"
    using False by (simp add: round_binary64_def Let_def)
  have "round_binary64 x - x = (of_int (round_half_even (x / ?q)) - x / ?q) * ?q"
    using q by (simp add: r left_diff_distrib)
  then have "\<bar>round_binary64 x - x\<bar> = \<bar>of_int (round_half_even (x / ?q)) - x / ?q\<bar> * \<bar>?q\<bar>"
    by (simp only: abs_mult)
  also have "\<dots> = \<bar>of_int (round_half_even (x / ?q)) - x / ?q\<bar> * ?q"
    using q by simp
  also have "\<dots> \<le> 1 / 2 * ?q"
    using round_half_even_error [of "x / ?q"] q by (simp add: mult_right_mono)
  finally have half: "\<bar>round_binary64 x - x\<bar> \<le> ?q / 2"
    by simp
  have "?q / 2 \<le> x / 2 ^ 53 + 1 / 2 ^ 1075"
  proof (cases "- 1074 \<le> ?e - 52")
    case True
    then have "max (?e - 52) (- 1074) = ?e + (- 52)" by simp
    then have "?q = pow2 (?e + (- 52))" by (simp only:)
    also have "\<dots> = pow2 ?e * pow2 (- 52)" by (rule pow2_add)
    also have "\<dots> \<le> x * pow2 (- 52)"
      using binary_exponent_bounds [OF pos] pow2_pos [of "- 52"] by (simp add: mult_right_mono)
    finally have "?q / 2 \<le> x * pow2 (- 52) / 2" by simp
    also have "\<dots> = x / 2 ^ 53" by (simp add: pow2_def)
    finally show ?thesis by simp
  next
    case False
    then have "max (?e - 52) (- 1074) = - 1074" by simp
    then have "?q = pow2 (- 1074)" by (simp only:)
    then have "?q / 2 = 1 / 2 ^ 1075" by (simp add: pow2_def)
    with pos show ?thesis by simp
  qed
  with half show ?thesis by linarith
qed

lemma approval_rate_error:
  assumes "a \<le> t" and "0 < t"
  shows "\<bar>round_binary64 (round_binary64 (of_nat a / of_nat t) * 100)
            - 100 * of_nat a / of_nat t\<bar> \<le> 1 / 2 ^ 44"
proof -
  define u :: rat where "u = 1 / 2 ^ 53"
  define x :: rat where "x = of_nat a / of_nat t"
  define r1 where "r1 = round_binary64 x"
  define r2 where "r2 = round_binary64 (r1 * 100)"
  have tiny: "1 / 2 ^ 1075 \<le> u"
    by (simp add: u_def)
  have u44: "512 * u = 1 / 2 ^ 44"
    by (simp add: u_def)
  have u0: "0 < u"
    by (simp add: u_def)
  have x0: "0 \<le> x" and x1: "x \<le> 1"
    using assms by (simp_all add: x_def)
  have "\<bar>r1 - x\<bar> \<le> x / 2 ^ 53 + 1 / 2 ^ 1075"
    unfolding r1_def using x0 by (rule round_binary64_error)
  also have "x / 2 ^ 53 = x * u"
    by (simp add: u_def)
  also have "x * u \<le> 1 * u"
    using x1 u0 by (intro mult_right_mono) simp_all
  finally have e1: "\<bar>r1 - x\<bar> \<le> 2 * u"
    using tiny by linarith
  have r0: "0 \<le> r1"
    unfolding r1_def using x0 by (rule round_binary64_nonneg)
  have "u \<le> 1 / 2"
    by (simp add: u_def)
  with e1 x1 have r1: "r1 \<le> 2"
    by linarith
  have "\<bar>r2 - r1 * 100\<bar> \<le> r1 * 100 / 2 ^ 53 + 1 / 2 ^ 1075"
    unfolding r2_def using r0 by (intro round_binary64_error) simp
  also have "r1 * 100 / 2 ^ 53 = (r1 * 100) * u"
    by (simp add: u_def)
  also have "(r1 * 100) * u \<le> 200 * u"
    using r1 u0 by (intro mult_right_mono) simp_all
  finally have e2: "\<bar>r2 - r1 * 100\<bar> \<le> 201 * u"
    using tiny by linarith
  have "\<bar>r2 - 100 * x\<bar> \<le> 512 * u"
    using e1 e2 u0 by linarith
  then show ?thesis
    unfolding u44 r2_def r1_def x_def by simp
qed

lemma printed_hundredths_error:
  "\<bar>of_int (round_half_even (x * 100)) / 100 - x\<bar> \<le> 1 / 200"
  using round_half_even_error [of "x * 100"] by linarith

section \<open>Printed integers\<close>

declare decimal_digits.simps [simp del]

lemma digit_char:
  assumes "0 \<le> d" and "d < 10"
  shows "is_digit (digit d)"
    and "of_char (digit d) = (48 + nat d :: nat)"
    and "digit d = CHR ''0'' \<longleftrightarrow> d = 0"
proof -
  have "k \<in> {0, 1, 2, 3, 4, 5, 6, 7, 8, 9}" if "k < 10" for k :: nat
    using that by auto
  moreover have "nat d < 10"
    using assms by simp
  ultimately have "nat d \<in> {0, 1, 2, 3, 4, 5, 6, 7, 8, 9}"
    by blast
  with assms show "is_digit (digit d)"
    and "of_char (digit d) = (48 + nat d :: nat)"
    and "digit d = CHR ''0'' \<longleftrightarrow> d = 0"
    by (auto simp: is_digit_def digit_def)
qed

lemma decimal_value_snoc:
  "decimal_value (s @ [c]) = 10 * decimal_value s + (of_char c - 48)"
  by (simp add: decimal_value_def)

lemma decimal_digits_reads_back:
  "0 \<le> n \<Longrightarrow>
     decimal_digits n \<noteq> [] \<and> list_all is_digit (decimal_digits n)
     \<and> decimal_value (decimal_digits n) = nat n
     \<and> (hd (decimal_digits n) = CHR ''0'' \<longrightarrow> n = 0)"
proof (induction n rule: decimal_digits.induct)
  case (1 n)
  show ?case
  proof (cases "n < 10")
    case True
    then have s: "decimal_digits n = [digit n]"
      by (subst decimal_digits.simps) simp
    show ?thesis
      using digit_char [OF "1.prems" True] by (simp add: s decimal_value_def)
  next
    case False
    then have s: "decimal_digits n
        = decimal_digits (n div 10) @ [digit (n mod 10)]"
      by (subst decimal_digits.simps) simp
    have q: "0 \<le> n div 10" and q1: "n div 10 \<noteq> 0"
      using False by simp_all
    have ih: "decimal_digits (n div 10) \<noteq> [] \<and> list_all is_digit (decimal_digits (n div 10))
        \<and> decimal_value (decimal_digits (n div 10)) = nat (n div 10)
        \<and> (hd (decimal_digits (n div 10)) = CHR ''0'' \<longrightarrow> n div 10 = 0)"
      using "1.IH" [OF False q] .
    have d0: "0 \<le> n mod 10" and d: "n mod 10 < 10"
      by simp_all
    have "nat n = nat (10 * (n div 10) + n mod 10)"
      by simp
    also have "\<dots> = nat (10 * (n div 10)) + nat (n mod 10)"
      using q by (intro nat_add_distrib) simp_all
    also have "nat (10 * (n div 10)) = 10 * nat (n div 10)"
      by (simp add: nat_mult_distrib)
    finally have "10 * nat (n div 10) + nat (n mod 10) = nat n"
      by simp
    then have v: "decimal_value (decimal_digits n) = nat n"
      using ih digit_char(2) [OF d0 d] by (simp add: s decimal_value_snoc)
    show ?thesis
      using ih q1 digit_char(1) [OF d0 d] v by (simp add: s)
  qed
qed

lemma str_int_decimal:
  assumes "0 \<le> k"
  shows "decimal_numeral (str_int k) (nat k)"
proof -
  have s: "str_int k = decimal_digits k"
    using assms by (simp add: str_int_def)
  have z: "decimal_digits 0 = ''0''"
    by (subst decimal_digits.simps) (simp add: digit_def)
  show ?thesis
    using decimal_digits_reads_back [OF assms] z
    by (auto simp: decimal_numeral_def s)
qed

section \<open>Rounding as specified\<close>

lemma round_half_even_nearest_even: "nearest_even y (round_half_even y)"
proof -
  have fl: "of_int \<lfloor>y\<rfloor> \<le> y" and fu: "y < of_int \<lfloor>y\<rfloor> + 1"
    by linarith+
  consider (lo) "y - of_int \<lfloor>y\<rfloor> < 1 / 2" | (hi) "1 / 2 < y - of_int \<lfloor>y\<rfloor>"
    | (tie) "y - of_int \<lfloor>y\<rfloor> = 1 / 2"
    by linarith
  then show ?thesis
  proof cases
    case lo
    then have "round_half_even y = \<lfloor>y\<rfloor>"
      by (simp add: round_half_even_def Let_def)
    with lo fl show ?thesis by (simp add: nearest_even_def)
  next
    case hi
    then have "round_half_even y = \<lfloor>y\<rfloor> + 1"
      by (simp add: round_half_even_def Let_def)
    with hi fu show ?thesis by (simp add: nearest_even_def)
  next
    case tie
    show ?thesis
    proof (cases "even \<lfloor>y\<rfloor>")
      case True
      with tie have "round_half_even y = \<lfloor>y\<rfloor>"
        by (simp add: round_half_even_def Let_def)
      with tie True show ?thesis by (simp add: nearest_even_def)
    next
      case False
      with tie have "round_half_even y = \<lfloor>y\<rfloor> + 1"
        by (simp add: round_half_even_def Let_def)
      with tie False show ?thesis by (simp add: nearest_even_def)
    qed
  qed
qed

lemma round_binary64_rounded:
  assumes "0 \<le> x"
  shows "rounded_to_binary64 x (round_binary64 x)"
proof (cases "x = 0")
  case True
  then show ?thesis by (simp add: rounded_to_binary64_def round_binary64_def)
next
  case False
  with assms have pos: "0 < x" by simp
  let ?e = "binary_exponent x"
  have b: "2 powi ?e \<le> x \<and> x < 2 powi (?e + 1)"
    using binary_exponent_bounds [OF pos] by (simp add: pow2_powi)
  have r: "round_binary64 x
      = of_int (round_half_even (x / 2 powi (max (?e - 52) (- 1074))))
          * 2 powi (max (?e - 52) (- 1074))"
    using False by (simp add: round_binary64_def Let_def pow2_powi)
  have n: "nearest_even (x / 2 powi (max (?e - 52) (- 1074)))
      (round_half_even (x / 2 powi (max (?e - 52) (- 1074))))"
    by (rule round_half_even_nearest_even)
  show ?thesis
    unfolding rounded_to_binary64_def using pos b n r by blast
qed

lemma format_2f_reads_back:
  assumes "0 \<le> x"
  shows "\<exists>ip d1 d2. format_2f x = ip @ ''.'' @ [d1, d2]
     \<and> decimal_numeral ip (nat (round_half_even (x * 100) div 100))
     \<and> is_digit d1 \<and> is_digit d2
     \<and> decimal_value [d1, d2] = nat (round_half_even (x * 100) mod 100)"
proof -
  let ?n = "round_half_even (x * 100)"
  let ?d1 = "digit (?n mod 100 div 10)"
  let ?d2 = "digit (?n mod 10)"
  have n0: "0 \<le> ?n"
    using assms by (intro round_half_even_nonneg) simp
  have f: "format_2f x = str_int (?n div 100) @ ''.'' @ [?d1, ?d2]"
    by (simp add: format_2f_def Let_def)
  have ip: "decimal_numeral (str_int (?n div 100)) (nat (?n div 100))"
    using n0 by (intro str_int_decimal) (simp add: pos_imp_zdiv_nonneg_iff)
  have a0: "0 \<le> ?n mod 100 div 10" and a: "?n mod 100 div 10 < 10"
    and b0: "0 \<le> ?n mod 10" and b: "?n mod 10 < 10"
    by (simp_all add: pos_imp_zdiv_nonneg_iff)
  have "?n mod 100 mod 10 = ?n mod 10"
    by (intro mod_mod_cancel) simp
  then have "?n mod 100 = 10 * (?n mod 100 div 10) + ?n mod 10"
    using mult_div_mod_eq [of 10 "?n mod 100"] by simp
  then have "nat (?n mod 100) = nat (10 * (?n mod 100 div 10) + ?n mod 10)"
    by simp
  also have "\<dots> = nat (10 * (?n mod 100 div 10)) + nat (?n mod 10)"
    by (intro nat_add_distrib) simp_all
  also have "nat (10 * (?n mod 100 div 10)) = 10 * nat (?n mod 100 div 10)"
    by (simp add: nat_mult_distrib)
  finally have v: "decimal_value [?d1, ?d2] = nat (?n mod 100)"
    using digit_char(2) [OF a0 a] digit_char(2) [OF b0 b] by (simp add: decimal_value_def)
  show ?thesis
    using f ip digit_char(1) [OF a0 a] digit_char(1) [OF b0 b] v
    by (intro exI [of _ "str_int (?n div 100)"] exI [of _ ?d1] exI [of _ ?d2]) simp
qed

section \<open>The summary report\<close>

lemma sum_list_ones:
  "sum_list (map (\<lambda>r. 1) xs) = int (length xs)"
  by (induction xs) simp_all

lemma foldl_append_lines:
  "foldl (\<lambda>report (defect, count). report @ line defect count) report items
     = report @ concat (map (\<lambda>(defect, count). line defect count) items)"
  by (induction items arbitrary: report) (simp_all add: split_beta)

lemma length_filter_complement:
  "int (length xs) - int (length (filter P xs)) = int (length (filter (\<lambda>x. \<not> P x) xs))"
  by (induction xs) simp_all

text \<open>
  C5. On an empty ledger \<^verbatim>\<open>generate_report\<close> returns the text that says there is no
  data. On a ledger of \<open>total > 0\<close> entries it returns a text that begins with the
  heading and then shows, as decimal numerals, \<open>total\<close>, the number \<open>approved\<close> of
  entries whose result is \<^verbatim>\<open>approved\<close>, and \<open>total - approved\<close>, which is the number of
  the other entries. The approval rate it shows is not the exact quotient
  \<open>100 * approved / total\<close> but the float the code computes: \<open>approved / total\<close> rounded
  to binary64 (\<open>ratio\<close>), then \<open>ratio * 100\<close> rounded to binary64 (\<open>rate\<close>). The
  text shows \<open>rate\<close> to two decimals: its digits denote \<open>n / 100\<close> for the integer \<open>n\<close> nearest to
  \<open>rate * 100\<close>, ties to even. \<open>rate\<close> is within \<open>2 ^ -44\<close> of the exact quotient, so what is
  shown is within half a hundredth and \<open>2 ^ -44\<close> of it. The call raises in neither
  case: the only division has the divisor \<open>total > 0\<close>.
\<close>

theorem generate_report_summary:
  "(results self = [] \<longrightarrow>
      generate_report self = Inr ''No inspection data available to generate report.'')
   \<and> (results self \<noteq> [] \<longrightarrow>
      (\<exists>total_text approved_text rejected_text ip d1 d2 details ratio rate n.
         generate_report self = Inr (
         ''\<newline>        QUALITY CONTROL REPORT'' @
         ''\<newline>        ======================'' @
         ''\<newline>        Total inspections: '' @ total_text @
         ''\<newline>        Approved products: '' @ approved_text @
         ''\<newline>        Rejected products: '' @ rejected_text @
         ''\<newline>        Approval rate: '' @ ip @ ''.'' @ [d1, d2] @ ''%'' @
         ''\<newline>        '' @
         ''\<newline>        Defect details:'' @
         ''\<newline>        '' @ details)
       \<and> decimal_numeral total_text (length (results self))
       \<and> decimal_numeral approved_text (length (filter (\<lambda>r. rec_result r = ''approved'') (results self)))
       \<and> decimal_numeral rejected_text (length (results self) - length (filter (\<lambda>r. rec_result r = ''approved'') (results self)))
       \<and> rounded_to_binary64 (of_nat (length (filter (\<lambda>r. rec_result r = ''approved'') (results self))) / of_nat (length (results self))) ratio
       \<and> rounded_to_binary64 (ratio * 100) rate
       \<and> nearest_even (rate * 100) n \<and> 0 \<le> n
       \<and> decimal_numeral ip (nat (n div 100))
       \<and> is_digit d1 \<and> is_digit d2 \<and> decimal_value [d1, d2] = nat (n mod 100)
       \<and> \<bar>rate - 100 * of_nat (length (filter (\<lambda>r. rec_result r = ''approved'') (results self))) / of_nat (length (results self))\<bar> \<le> 1 / 2 ^ 44
       \<and> \<bar>(of_int n :: rat) / 100 - 100 * of_nat (length (filter (\<lambda>r. rec_result r = ''approved'') (results self))) / of_nat (length (results self))\<bar>
           \<le> 1 / 200 + 1 / 2 ^ 44))
   \<and> length (results self) - length (filter (\<lambda>r. rec_result r = ''approved'') (results self))
      = length (filter (\<lambda>r. rec_result r \<noteq> ''approved'') (results self))
   \<and> (\<forall>e. generate_report self \<noteq> Inl e)"
proof -
  let ?t = "length (results self)"
  let ?a = "length (filter (\<lambda>r. rec_result r = ''approved'') (results self))"
  let ?total = "int ?t"
  let ?approved = "int ?a"
  let ?q = "round_binary64 (of_nat ?a / of_nat ?t)"
  let ?rate = "round_binary64 (?q * 100)"
  let ?n = "round_half_even (?rate * 100)"
  let ?lines = "concat (map (\<lambda>(defect, count).
       ''  - '' @ defect @ '': '' @ str_int count @ '' occurrences\<newline>'')
       (count_defects (results self)))"
  let ?details = "if count_defects (results self) \<noteq> [] then ?lines
       else ''  No defects detected\<newline>''"
  have le: "?a \<le> ?t"
    by (rule length_filter_le)
  have empty: "results self = [] \<Longrightarrow>
      generate_report self = Inr ''No inspection data available to generate report.''"
    by (simp add: generate_report_def)
  have full: "generate_report self =
      Inr (report_header ?total ?approved ?rate @ ?details)"
    if "results self \<noteq> []"
  proof -
    have pos: "0 < ?total" using that by simp
    have ne: "?total \<noteq> 0" using that by simp
    have lines: "foldl (\<lambda>report (defect, count).
           report @ ''  - '' @ defect @ '': '' @ str_int count @ '' occurrences\<newline>'')
         report items
       = report @ concat (map (\<lambda>(defect, count).
           ''  - '' @ defect @ '': '' @ str_int count @ '' occurrences\<newline>'') items)"
      for report items
      using foldl_append_lines
        [of "\<lambda>defect count. ''  - '' @ defect @ '': '' @ str_int count @ '' occurrences\<newline>''"
          report items]
      by simp
    show ?thesis
      unfolding generate_report_def Let_def sum_list_ones truediv_def float_mul_int_def lines
      using that pos ne by simp
  qed
  have rejected: "?t - ?a = length (filter (\<lambda>r. rec_result r \<noteq> ''approved'') (results self))"
    using length_filter_complement [of "results self" "(\<lambda>r. rec_result r = ''approved'')"] le by linarith
  have noraise: "generate_report self \<noteq> Inl e" for e
    using empty full by (cases "results self = []") simp_all
  have shown: "(\<exists>total_text approved_text rejected_text ip d1 d2 details ratio rate n.
         generate_report self = Inr (
         ''\<newline>        QUALITY CONTROL REPORT'' @
         ''\<newline>        ======================'' @
         ''\<newline>        Total inspections: '' @ total_text @
         ''\<newline>        Approved products: '' @ approved_text @
         ''\<newline>        Rejected products: '' @ rejected_text @
         ''\<newline>        Approval rate: '' @ ip @ ''.'' @ [d1, d2] @ ''%'' @
         ''\<newline>        '' @
         ''\<newline>        Defect details:'' @
         ''\<newline>        '' @ details)
       \<and> decimal_numeral total_text (length (results self))
       \<and> decimal_numeral approved_text (length (filter (\<lambda>r. rec_result r = ''approved'') (results self)))
       \<and> decimal_numeral rejected_text (length (results self) - length (filter (\<lambda>r. rec_result r = ''approved'') (results self)))
       \<and> rounded_to_binary64 (of_nat (length (filter (\<lambda>r. rec_result r = ''approved'') (results self))) / of_nat (length (results self))) ratio
       \<and> rounded_to_binary64 (ratio * 100) rate
       \<and> nearest_even (rate * 100) n \<and> 0 \<le> n
       \<and> decimal_numeral ip (nat (n div 100))
       \<and> is_digit d1 \<and> is_digit d2 \<and> decimal_value [d1, d2] = nat (n mod 100)
       \<and> \<bar>rate - 100 * of_nat (length (filter (\<lambda>r. rec_result r = ''approved'') (results self))) / of_nat (length (results self))\<bar> \<le> 1 / 2 ^ 44
       \<and> \<bar>(of_int n :: rat) / 100 - 100 * of_nat (length (filter (\<lambda>r. rec_result r = ''approved'') (results self))) / of_nat (length (results self))\<bar>
           \<le> 1 / 200 + 1 / 2 ^ 44)"
    if ne: "results self \<noteq> []"
  proof -
    have t0: "0 < ?t"
      using ne by simp
    have q0: "(0::rat) \<le> of_nat ?a / of_nat ?t"
      by simp
    have q: "rounded_to_binary64 (of_nat ?a / of_nat ?t) ?q"
      using q0 by (rule round_binary64_rounded)
    have q1: "0 \<le> ?q * 100"
      using round_binary64_nonneg [OF q0] by simp
    have r: "rounded_to_binary64 (?q * 100) ?rate"
      using q1 by (rule round_binary64_rounded)
    have r0: "0 \<le> ?rate"
      using q1 by (rule round_binary64_nonneg)
    have n: "nearest_even (?rate * 100) ?n"
      by (rule round_half_even_nearest_even)
    have n0: "0 \<le> ?n"
      using r0 by (intro round_half_even_nonneg) simp
    have acc: "\<bar>?rate - 100 * of_nat ?a / of_nat ?t\<bar> \<le> 1 / 2 ^ 44"
      using le t0 by (rule approval_rate_error)
    have acc': "\<bar>(of_int ?n :: rat) / 100 - 100 * of_nat ?a / of_nat ?t\<bar> \<le> 1 / 200 + 1 / 2 ^ 44"
      using acc printed_hundredths_error [of ?rate] by linarith
    obtain ip d1 d2 where f: "format_2f ?rate = ip @ ''.'' @ [d1, d2]"
      and ip: "decimal_numeral ip (nat (?n div 100))"
      and d: "is_digit d1" "is_digit d2" "decimal_value [d1, d2] = nat (?n mod 100)"
      using format_2f_reads_back [OF r0] by blast
    have tt: "decimal_numeral (str_int ?total) ?t"
      using str_int_decimal [of ?total] by simp
    have at: "decimal_numeral (str_int ?approved) ?a"
      using str_int_decimal [of ?approved] by simp
    have rt: "decimal_numeral (str_int (?total - ?approved)) (?t - ?a)"
      using str_int_decimal [of "?total - ?approved"] le by (simp add: nat_diff_distrib')
    have report: "generate_report self = Inr (
         ''\<newline>        QUALITY CONTROL REPORT'' @
         ''\<newline>        ======================'' @
         ''\<newline>        Total inspections: '' @ str_int ?total @
         ''\<newline>        Approved products: '' @ str_int ?approved @
         ''\<newline>        Rejected products: '' @ str_int (?total - ?approved) @
         ''\<newline>        Approval rate: '' @ ip @ ''.'' @ [d1, d2] @ ''%'' @
         ''\<newline>        '' @
         ''\<newline>        Defect details:'' @
         ''\<newline>        '' @ ?details)"
      unfolding full [OF ne] report_header_def f by simp
    show ?thesis
      using report tt at rt q r n n0 ip d acc acc' by blast
  qed
  show ?thesis
    using empty shown rejected noraise by blast
qed

theorem generate_report_summary_witness:
  "results sample_system \<noteq> []
   \<and> (\<exists>total_text approved_text rejected_text ip d1 d2 details ratio rate n.
         generate_report sample_system = Inr (
         ''\<newline>        QUALITY CONTROL REPORT'' @
         ''\<newline>        ======================'' @
         ''\<newline>        Total inspections: '' @ total_text @
         ''\<newline>        Approved products: '' @ approved_text @
         ''\<newline>        Rejected products: '' @ rejected_text @
         ''\<newline>        Approval rate: '' @ ip @ ''.'' @ [d1, d2] @ ''%'' @
         ''\<newline>        '' @
         ''\<newline>        Defect details:'' @
         ''\<newline>        '' @ details)
       \<and> decimal_numeral total_text (length (results sample_system))
       \<and> decimal_numeral approved_text (length (filter (\<lambda>r. rec_result r = ''approved'') (results sample_system)))
       \<and> decimal_numeral rejected_text (length (results sample_system) - length (filter (\<lambda>r. rec_result r = ''approved'') (results sample_system)))
       \<and> rounded_to_binary64 (of_nat (length (filter (\<lambda>r. rec_result r = ''approved'') (results sample_system))) / of_nat (length (results sample_system))) ratio
       \<and> rounded_to_binary64 (ratio * 100) rate
       \<and> nearest_even (rate * 100) n \<and> 0 \<le> n
       \<and> decimal_numeral ip (nat (n div 100))
       \<and> is_digit d1 \<and> is_digit d2 \<and> decimal_value [d1, d2] = nat (n mod 100)
       \<and> \<bar>rate - 100 * of_nat (length (filter (\<lambda>r. rec_result r = ''approved'') (results sample_system))) / of_nat (length (results sample_system))\<bar> \<le> 1 / 2 ^ 44
       \<and> \<bar>(of_int n :: rat) / 100 - 100 * of_nat (length (filter (\<lambda>r. rec_result r = ''approved'') (results sample_system))) / of_nat (length (results sample_system))\<bar>
           \<le> 1 / 200 + 1 / 2 ^ 44)
   \<and> generate_report sample_system = Inr
       ''\<newline>        QUALITY CONTROL REPORT\<newline>        ======================\<newline>        Total inspections: 3\<newline>        Approved products: 2\<newline>        Rejected products: 1\<newline>        Approval rate: 66.67%\<newline>        \<newline>        Defect details:\<newline>          - air_bubbles: 1 occurrences\<newline>''
   \<and> generate_report QualityControlSystem_init
       = Inr ''No inspection data available to generate report.''"
proof -
  have ne: "results sample_system \<noteq> []"
    by (simp add: sample_system_def)
  have none: "results QualityControlSystem_init = []"
    by (simp add: QualityControlSystem_init_def)
  have shown: "(\<exists>total_text approved_text rejected_text ip d1 d2 details ratio rate n.
         generate_report sample_system = Inr (
         ''\<newline>        QUALITY CONTROL REPORT'' @
         ''\<newline>        ======================'' @
         ''\<newline>        Total inspections: '' @ total_text @
         ''\<newline>        Approved products: '' @ approved_text @
         ''\<newline>        Rejected products: '' @ rejected_text @
         ''\<newline>        Approval rate: '' @ ip @ ''.'' @ [d1, d2] @ ''%'' @
         ''\<newline>        '' @
         ''\<newline>        Defect details:'' @
         ''\<newline>        '' @ details)
       \<and> decimal_numeral total_text (length (results sample_system))
       \<and> decimal_numeral approved_text (length (filter (\<lambda>r. rec_result r = ''approved'') (results sample_system)))
       \<and> decimal_numeral rejected_text (length (results sample_system) - length (filter (\<lambda>r. rec_result r = ''approved'') (results sample_system)))
       \<and> rounded_to_binary64 (of_nat (length (filter (\<lambda>r. rec_result r = ''approved'') (results sample_system))) / of_nat (length (results sample_system))) ratio
       \<and> rounded_to_binary64 (ratio * 100) rate
       \<and> nearest_even (rate * 100) n \<and> 0 \<le> n
       \<and> decimal_numeral ip (nat (n div 100))
       \<and> is_digit d1 \<and> is_digit d2 \<and> decimal_value [d1, d2] = nat (n mod 100)
       \<and> \<bar>rate - 100 * of_nat (length (filter (\<lambda>r. rec_result r = ''approved'') (results sample_system))) / of_nat (length (results sample_system))\<bar> \<le> 1 / 2 ^ 44
       \<and> \<bar>(of_int n :: rat) / 100 - 100 * of_nat (length (filter (\<lambda>r. rec_result r = ''approved'') (results sample_system))) / of_nat (length (results sample_system))\<bar>
           \<le> 1 / 200 + 1 / 2 ^ 44)"
    using generate_report_summary [of sample_system] ne by blast
  have v: "generate_report sample_system = Inr
       ''\<newline>        QUALITY CONTROL REPORT\<newline>        ======================\<newline>        Total inspections: 3\<newline>        Approved products: 2\<newline>        Rejected products: 1\<newline>        Approval rate: 66.67%\<newline>        \<newline>        Defect details:\<newline>          - air_bubbles: 1 occurrences\<newline>''"
    by code_simp
  have e: "generate_report QualityControlSystem_init
       = Inr ''No inspection data available to generate report.''"
    using generate_report_summary [of QualityControlSystem_init] none by blast
  from ne shown v e show ?thesis
    by (intro conjI)
qed

text \<open>
  The rate shown need not be the exact quotient rounded to two decimals. With 23 of 160
  entries approved the exact quotient is 14.375, halfway between two hundredths, and
  rounds to 14.38 (ties to even, and also ties upward); the float the code computes lies
  just below it and the report shows 14.37.
\<close>

theorem generate_report_rate_not_exact_quotient:
  "generate_report (QualityControlSystem_init\<lparr>results :=
      replicate 23
        \<lparr>rec_batch_id = ''B'', rec_date = 1, rec_process = ''molding'', rec_defects = [],
         rec_result = ''approved'', rec_chocolate_type = ''MoldedChocolate''\<rparr>
      @ replicate 137
        \<lparr>rec_batch_id = ''B'', rec_date = 1, rec_process = ''molding'',
         rec_defects = [''breakage''],
         rec_result = ''rejected'', rec_chocolate_type = ''MoldedChocolate''\<rparr>\<rparr>)
     = Inr
       ''\<newline>        QUALITY CONTROL REPORT\<newline>        ======================\<newline>        Total inspections: 160\<newline>        Approved products: 23\<newline>        Rejected products: 137\<newline>        Approval rate: 14.37%\<newline>        \<newline>        Defect details:\<newline>          - breakage: 137 occurrences\<newline>''
   \<and> (100 * 23 / 160 :: rat) = 14375 / 1000
   \<and> nearest_even (100 * 23 / 160 * 100) 1438
   \<and> \<not> nearest_even (100 * 23 / 160 * 100) 1437"
proof -
  have "generate_report (QualityControlSystem_init\<lparr>results :=
      replicate 23
        \<lparr>rec_batch_id = ''B'', rec_date = 1, rec_process = ''molding'', rec_defects = [],
         rec_result = ''approved'', rec_chocolate_type = ''MoldedChocolate''\<rparr>
      @ replicate 137
        \<lparr>rec_batch_id = ''B'', rec_date = 1, rec_process = ''molding'',
         rec_defects = [''breakage''],
         rec_result = ''rejected'', rec_chocolate_type = ''MoldedChocolate''\<rparr>\<rparr>)
     = Inr
       ''\<newline>        QUALITY CONTROL REPORT\<newline>        ======================\<newline>        Total inspections: 160\<newline>        Approved products: 23\<newline>        Rejected products: 137\<newline>        Approval rate: 14.37%\<newline>        \<newline>        Defect details:\<newline>          - breakage: 137 occurrences\<newline>''"
    by code_simp
  moreover have "(100 * 23 / 160 :: rat) = 14375 / 1000"
    by simp
  moreover have "nearest_even (100 * 23 / 160 * 100) 1438"
    by (simp add: nearest_even_def)
  moreover have "\<not> nearest_even (100 * 23 / 160 * 100) 1437"
    by (simp add: nearest_even_def)
  ultimately show ?thesis
    by (intro conjI)
qed

end
